theory Spec2Isabelle
  imports Main "HOL-Library.Word" "HOL-Library.Char_ord" "HOL-Library.List_Lexorder"
    "HOL-Library.Finite_Map"
begin

unbundle bit_operations_syntax

section \<open>Hancock: signing and validating query strings\<close>

text \<open>
  The package \<^verbatim>\<open>hancock\<close> signs a query string with HMAC-SHA256 and validates signed
  requests. The repository holds four revisions of the package file:
  \<^item> \<^verbatim>\<open>src/hancock.go\<close>: \<^verbatim>\<open>Validate\<close> guards the timestamp check with
    \<^verbatim>\<open>expireSeconds > -1\<close>; \<^verbatim>\<open>Sign\<close> adds the envelope to the caller's map and appends
    \<^verbatim>\<open>&data=\<close> itself. Its functions carry the suffix \<open>_r0\<close> here.
  \<^item> \<^verbatim>\<open>src/unnamed/part_001\<close>: \<^verbatim>\<open>Validate\<close> with the switch on -1 and -2; \<^verbatim>\<open>SignQS\<close>
    copies the map but signs \<^verbatim>\<open>qs.Encode()\<close>. Suffix \<open>_p1\<close>.
  \<^item> \<^verbatim>\<open>src/unnamed/part_000\<close>: as part_001, \<^verbatim>\<open>SignQS\<close> signs the copy. No suffix.
  \<^item> \<^verbatim>\<open>src/unnamed/part_002\<close>: as part_000, the error carries the request's data.
    Suffix \<open>_p2\<close>.
  Go strings are byte strings: \<^typ>\<open>string\<close>. Go's \<^verbatim>\<open>int64\<close> is \<^typ>\<open>64 word\<close>, read
  signed; \<^verbatim>\<open>int\<close> is taken at 64 bits (amd64, arm64). The clock
  \<^verbatim>\<open>time.Now().UTC().Unix()\<close> is the parameter \<open>now\<close> of every function that reads it.
\<close>

type_synonym byte = "8 word"
type_synonym u32 = "32 word"
type_synonym int64 = "64 word"

subsection \<open>crypto/sha256, crypto/hmac, encoding/base64 (Go standard library)\<close>

text \<open>
  The package calls \<^verbatim>\<open>hmac.New(sha256.New, key)\<close>, \<^verbatim>\<open>Write\<close>, \<^verbatim>\<open>Sum(nil)\<close> and
  \<^verbatim>\<open>base64.URLEncoding.EncodeToString\<close>. They are library code; the definitions below
  follow FIPS 180-4 (SHA-256), RFC 2104 (HMAC) and RFC 4648 section 5 (base64url with
  padding).
\<close>

definition rotr :: "nat \<Rightarrow> u32 \<Rightarrow> u32" where
  "rotr n x = (drop_bit n x) OR (push_bit (32 - n) x)"

definition sha_K :: "u32 list" where
  "sha_K = [
   1116352408, 1899447441, 3049323471, 3921009573, 961987163, 1508970993, 2453635748, 2870763221,
   3624381080, 310598401, 607225278, 1426881987, 1925078388, 2162078206, 2614888103, 3248222580,
   3835390401, 4022224774, 264347078, 604807628, 770255983, 1249150122, 1555081692, 1996064986,
   2554220882, 2821834349, 2952996808, 3210313671, 3336571891, 3584528711, 113926993, 338241895,
   666307205, 773529912, 1294757372, 1396182291, 1695183700, 1986661051, 2177026350, 2456956037,
   2730485921, 2820302411, 3259730800, 3345764771, 3516065817, 3600352804, 4094571909, 275423344,
   430227734, 506948616, 659060556, 883997877, 958139571, 1322822218, 1537002063, 1747873779,
   1955562222, 2024104815, 2227730452, 2361852424, 2428436474, 2756734187, 3204031479, 3329325298]"

type_synonym sha_state = "u32 \<times> u32 \<times> u32 \<times> u32 \<times> u32 \<times> u32 \<times> u32 \<times> u32"

definition sha_H0 :: "sha_state" where
  "sha_H0 = (1779033703, 3144134277, 1013904242, 2773480762,
             1359893119, 2600822924, 528734635, 1541459225)"

definition be32 :: "byte list \<Rightarrow> u32" where
  "be32 bs = foldl (\<lambda>acc b. push_bit 8 acc OR ucast b) 0 bs"

definition bytes_of_u32 :: "u32 \<Rightarrow> byte list" where
  "bytes_of_u32 w = [ucast (drop_bit 24 w), ucast (drop_bit 16 w), ucast (drop_bit 8 w), ucast w]"

definition bytes_of_len :: "nat \<Rightarrow> byte list" where
  "bytes_of_len n =
     map (\<lambda>i. ucast (drop_bit i (of_nat n :: 64 word))) [56, 48, 40, 32, 24, 16, 8, 0]"

definition sha_pad :: "byte list \<Rightarrow> byte list" where
  "sha_pad m =
     m @ [0x80] @ replicate ((119 - length m mod 64) mod 64) 0 @ bytes_of_len (8 * length m)"

fun chunks :: "nat \<Rightarrow> nat \<Rightarrow> 'a list \<Rightarrow> 'a list list" where
  "chunks 0 n xs = []"
| "chunks (Suc k) n xs = take n xs # chunks k n (drop n xs)"

definition ssig0 :: "u32 \<Rightarrow> u32" where
  "ssig0 x = rotr 7 x XOR rotr 18 x XOR drop_bit 3 x"

definition ssig1 :: "u32 \<Rightarrow> u32" where
  "ssig1 x = rotr 17 x XOR rotr 19 x XOR drop_bit 10 x"

definition bsig0 :: "u32 \<Rightarrow> u32" where
  "bsig0 x = rotr 2 x XOR rotr 13 x XOR rotr 22 x"

definition bsig1 :: "u32 \<Rightarrow> u32" where
  "bsig1 x = rotr 6 x XOR rotr 11 x XOR rotr 25 x"

fun schedule :: "nat \<Rightarrow> u32 list \<Rightarrow> u32 list" where
  "schedule 0 w = w"
| "schedule (Suc k) w =
     schedule k (w @ [ssig1 (w ! (length w - 2)) + w ! (length w - 7)
                      + ssig0 (w ! (length w - 15)) + w ! (length w - 16)])"

definition sha_round :: "sha_state \<Rightarrow> u32 \<times> u32 \<Rightarrow> sha_state" where
  "sha_round = (\<lambda>(a, b, c, d, e, f, g, h) (k, w).
     (let t1 = h + bsig1 e + ((e AND f) XOR (NOT e AND g)) + k + w;
          t2 = bsig0 a + ((a AND b) XOR (a AND c) XOR (b AND c))
      in (t1 + t2, a, b, c, d + t1, e, f, g)))"

definition sha_add :: "sha_state \<Rightarrow> sha_state \<Rightarrow> sha_state" where
  "sha_add = (\<lambda>(a, b, c, d, e, f, g, h) (a', b', c', d', e', f', g', h').
     (a + a', b + b', c + c', d + d', e + e', f + f', g + g', h + h'))"

definition sha_words :: "sha_state \<Rightarrow> u32 list" where
  "sha_words = (\<lambda>(a, b, c, d, e, f, g, h). [a, b, c, d, e, f, g, h])"

definition sha_block :: "sha_state \<Rightarrow> byte list \<Rightarrow> sha_state" where
  "sha_block hs blk =
     (let w = schedule 48 (map be32 (chunks 16 4 blk))
      in sha_add hs (foldl sha_round hs (zip sha_K w)))"

definition sha256 :: "byte list \<Rightarrow> byte list" where
  "sha256 m =
     (let p = sha_pad m
      in concat (map bytes_of_u32
           (sha_words (foldl sha_block sha_H0 (chunks (length p div 64) 64 p)))))"

definition hmac_sha256 :: "byte list \<Rightarrow> byte list \<Rightarrow> byte list" where
  "hmac_sha256 key msg =
     (let k0 = (if length key > 64 then sha256 key else key);
          k = k0 @ replicate (64 - length k0) 0
      in sha256 (map (\<lambda>b. b XOR 0x5c) k @ sha256 (map (\<lambda>b. b XOR 0x36) k @ msg)))"

text \<open>\<^verbatim>\<open>[]byte(s)\<close>: the bytes of a string.\<close>

definition bytes :: "string \<Rightarrow> byte list" where
  "bytes s = map of_char s"

definition b64_alphabet :: string where
  "b64_alphabet = ''ABCDEFGHIJKLMNOPQRSTUVWXYZabcdefghijklmnopqrstuvwxyz0123456789-_''"

definition b64_char :: "nat \<Rightarrow> char" where
  "b64_char n = b64_alphabet ! (n mod 64)"

fun base64url :: "byte list \<Rightarrow> string" where
  "base64url [] = []"
| "base64url [a] =
     [b64_char (unat a div 4), b64_char (unat a mod 4 * 16), CHR ''='', CHR ''='']"
| "base64url [a, b] =
     [b64_char (unat a div 4), b64_char (unat a mod 4 * 16 + unat b div 16),
      b64_char (unat b mod 16 * 4), CHR ''='']"
| "base64url (a # b # c # rest) =
     [b64_char (unat a div 4), b64_char (unat a mod 4 * 16 + unat b div 16),
      b64_char (unat b mod 16 * 4 + unat c div 64), b64_char (unat c mod 64)]
     @ base64url rest"

text \<open>
  The three lines \<^verbatim>\<open>hash := hmac.New(sha256.New, []byte(pKey))\<close>,
  \<^verbatim>\<open>hash.Write([]byte(sig))\<close>,
  \<^verbatim>\<open>encHash := base64.URLEncoding.EncodeToString(hash.Sum(nil))\<close>, which every
  revision repeats in \<^verbatim>\<open>Validate\<close> and in the signing function.
\<close>

definition encHash :: "string \<Rightarrow> string \<Rightarrow> string" where
  "encHash pKey sig = base64url (hmac_sha256 (bytes pKey) (bytes sig))"

subsection \<open>strconv and fmt (Go standard library)\<close>

text \<open>
  \<^verbatim>\<open>strconv.ParseInt(ts, 10, 64)\<close>: an optional sign, then one or more decimal digits;
  the value must fit \<^verbatim>\<open>int64\<close>. Every failure (syntax or range) is \<open>err != nil\<close>,
  here \<open>None\<close>.
\<close>

text \<open>The byte \<open>c\<close> lies in the range from \<open>lo\<close> to \<open>hi\<close>.\<close>

definition between :: "char \<Rightarrow> char \<Rightarrow> char \<Rightarrow> bool" where
  "between lo hi c = (lo \<le> c \<and> c \<le> hi)"

definition isDigit :: "char \<Rightarrow> bool" where
  "isDigit c = between CHR ''0'' CHR ''9'' c"

definition digitVal :: "char \<Rightarrow> nat" where
  "digitVal c = of_char c - 48"

definition ParseUint :: "string \<Rightarrow> nat option" where
  "ParseUint s =
     (if s = [] then None
      else if list_all isDigit s then
        (let n = foldl (\<lambda>n c. 10 * n + digitVal c) 0 s
         in if n < 2 ^ 64 then Some n else None)
      else None)"

definition ParseInt :: "string \<Rightarrow> int64 option" where
  "ParseInt s =
     (if s = [] then None
      else (let neg = (hd s = CHR ''-'');
                s1 = (if hd s = CHR ''+'' \<or> hd s = CHR ''-'' then tl s else s)
            in case ParseUint s1 of
                 None \<Rightarrow> None
               | Some un \<Rightarrow>
                   if \<not> neg \<and> un \<ge> 2 ^ 63 then None
                   else if neg \<and> un > 2 ^ 63 then None
                   else Some (if neg then - of_nat un else of_nat un)))"

text \<open>\<^verbatim>\<open>fmt.Sprintf("%d", n)\<close> for an \<^verbatim>\<open>int64\<close>: decimal digits, \<^verbatim>\<open>-\<close> before a negative.\<close>

definition digitChar :: "nat \<Rightarrow> char" where
  "digitChar d = ''0123456789'' ! d"

function utoa :: "nat \<Rightarrow> string" where
  "utoa n = (if n < 10 then [digitChar n] else utoa (n div 10) @ [digitChar (n mod 10)])"
  by pat_completeness auto
termination
  by (relation "measure (\<lambda>n. n)") auto

definition itoa :: "int64 \<Rightarrow> string" where
  "itoa n = (if sint n < 0 then CHR ''-'' # utoa (nat (- sint n)) else utoa (nat (sint n)))"

subsection \<open>net/url (Go standard library)\<close>

text \<open>
  \<^verbatim>\<open>url.QueryEscape\<close>: letters, digits and \<^verbatim>\<open>- _ . ~\<close> stay, a space becomes \<^verbatim>\<open>+\<close>,
  every other byte becomes \<^verbatim>\<open>%XX\<close> in upper-case hexadecimal.
\<close>

definition isAlnum :: "char \<Rightarrow> bool" where
  "isAlnum c = (between CHR ''a'' CHR ''z'' c \<or> between CHR ''A'' CHR ''Z'' c
                \<or> between CHR ''0'' CHR ''9'' c)"

definition shouldEscape :: "char \<Rightarrow> bool" where
  "shouldEscape c =
     (if isAlnum c then False
      else if c = CHR ''-'' \<or> c = CHR ''_'' \<or> c = CHR ''.'' \<or> c = CHR ''~'' then False
      else True)"

definition upperhex :: "nat \<Rightarrow> char" where
  "upperhex n = ''0123456789ABCDEF'' ! n"

fun QueryEscape :: "string \<Rightarrow> string" where
  "QueryEscape [] = []"
| "QueryEscape (c # cs) =
     (if c = CHR '' '' then [CHR ''+'']
      else if shouldEscape c then
        [CHR ''%'', upperhex (of_char c div 16), upperhex (of_char c mod 16)]
      else [c]) @ QueryEscape cs"

definition ishex :: "char \<Rightarrow> bool" where
  "ishex c = (between CHR ''0'' CHR ''9'' c \<or> between CHR ''a'' CHR ''f'' c
              \<or> between CHR ''A'' CHR ''F'' c)"

definition unhex :: "char \<Rightarrow> nat" where
  "unhex c =
     (if between CHR ''0'' CHR ''9'' c then of_char c - 48
      else if between CHR ''a'' CHR ''f'' c then of_char c - 97 + 10
      else if between CHR ''A'' CHR ''F'' c then of_char c - 65 + 10
      else 0)"

text \<open>
  \<^verbatim>\<open>url.QueryUnescape\<close>: \<^verbatim>\<open>%XX\<close> becomes the byte, \<^verbatim>\<open>+\<close> a space; a \<^verbatim>\<open>%\<close> not
  followed by two hexadecimal digits is an error.
\<close>

fun QueryUnescape :: "string \<Rightarrow> string option" where
  "QueryUnescape [] = Some []"
| "QueryUnescape (c # cs) =
     (if c = CHR ''%'' then
        (case cs of
           h # l # rest \<Rightarrow>
             if ishex h \<and> ishex l then
               map_option (\<lambda>t. char_of (unhex h * 16 + unhex l) # t) (QueryUnescape rest)
             else None
         | _ \<Rightarrow> None)
      else if c = CHR ''+'' then map_option (\<lambda>t. CHR '' '' # t) (QueryUnescape cs)
      else map_option (\<lambda>t. c # t) (QueryUnescape cs))"

text \<open>
  \<^verbatim>\<open>url.Values\<close> is \<^verbatim>\<open>map[string][]string\<close>. \<open>Values\<close> is what such a map shows: a
  finite map from keys to the lists of their values. The operations on it below read
  and build such maps; the slices behind the values of a caller's map, and the arrays they
  share, are in the memory of the signing functions further down.
\<close>

type_synonym Values = "(string, string list) fmap"

text \<open>Indexing a Go map at a missing key gives the zero value, the nil slice.\<close>

definition index :: "Values \<Rightarrow> string \<Rightarrow> string list" where
  "index v key = (case fmlookup v key of None \<Rightarrow> [] | Some vs \<Rightarrow> vs)"

definition Get :: "Values \<Rightarrow> string \<Rightarrow> string" where
  "Get v key = (case index v key of [] \<Rightarrow> [] | x # _ \<Rightarrow> x)"


definition Del :: "Values \<Rightarrow> string \<Rightarrow> Values" where
  "Del v key = fmdrop key v"

text \<open>
  \<^verbatim>\<open>Values.Encode\<close>: the keys sorted (bytewise), for each key its values in order, each
  pair written as \<^verbatim>\<open>QueryEscape(k) + "=" + QueryEscape(v)\<close>, with \<^verbatim>\<open>&\<close> before every pair
  written into a non-empty buffer.
\<close>

fun encode_vals :: "string \<Rightarrow> string list \<Rightarrow> string \<Rightarrow> string" where
  "encode_vals keyEscaped [] buf = buf"
| "encode_vals keyEscaped (x # xs) buf =
     encode_vals keyEscaped xs
       ((if buf \<noteq> [] then buf @ ''&'' else buf) @ keyEscaped @ ''='' @ QueryEscape x)"

fun encode_keys :: "Values \<Rightarrow> string list \<Rightarrow> string \<Rightarrow> string" where
  "encode_keys v [] buf = buf"
| "encode_keys v (k # ks) buf =
     encode_keys v ks (encode_vals (QueryEscape k) (index v k) buf)"

definition Encode :: "Values \<Rightarrow> string" where
  "Encode v = encode_keys v (sorted_list_of_fset (fmdom v)) []"

text \<open>\<^verbatim>\<open>strings.Cut(s, sep)\<close> for a one-byte separator.\<close>

definition Cut :: "string \<Rightarrow> char \<Rightarrow> string \<times> string" where
  "Cut s sep = (takeWhile (\<lambda>c. c \<noteq> sep) s, drop 1 (dropWhile (\<lambda>c. c \<noteq> sep) s))"

text \<open>
  The body of the loop of \<^verbatim>\<open>url.ParseQuery\<close> for one \<^verbatim>\<open>&\<close>-separated piece: a piece
  with a semicolon, an empty piece and a piece that does not unescape are skipped
  (\<^verbatim>\<open>URL.Query\<close> drops the error); otherwise the value is appended under the key.
\<close>

definition parsePair :: "Values \<Rightarrow> string \<Rightarrow> Values" where
  "parsePair m piece =
     (if CHR '';'' \<in> set piece then m
      else if piece = [] then m
      else (case Cut piece CHR ''='' of
              (key, val) \<Rightarrow>
                (case QueryUnescape key of
                   None \<Rightarrow> m
                 | Some key1 \<Rightarrow>
                     (case QueryUnescape val of
                        None \<Rightarrow> m
                      | Some val1 \<Rightarrow> fmupd key1 (index m key1 @ [val1]) m))))"

function parseQuery :: "Values \<Rightarrow> string \<Rightarrow> Values" where
  "parseQuery m query =
     (if query = [] then m
      else parseQuery (parsePair m (fst (Cut query CHR ''&''))) (snd (Cut query CHR ''&'')))"
  by pat_completeness auto
termination
proof (relation "measure (\<lambda>(m, query). length query)")
  show "wf (measure (\<lambda>(m, query). length query))"
    by simp
next
  fix m :: Values and query :: string
  assume "query \<noteq> []"
  have le: "length (dropWhile (\<lambda>c. c \<noteq> CHR ''&'') query) \<le> length query"
    by (rule length_dropWhile_le)
  have ar: "a - 1 < b" if "a \<le> b" and "0 < b" for a b :: nat
    using that by arith
  have pos: "0 < length query"
    using \<open>query \<noteq> []\<close> by simp
  have "length (drop 1 (dropWhile (\<lambda>c. c \<noteq> CHR ''&'') query)) < length query"
    unfolding length_drop by (rule ar [OF le pos])
  then have lt: "length (snd (Cut query CHR ''&'')) < length query"
    by (simp add: Cut_def)
  then show "((parsePair m (fst (Cut query CHR ''&'')), snd (Cut query CHR ''&'')), m, query)
      \<in> measure (\<lambda>(m, query). length query)"
    by simp
qed

definition ParseQuery :: "string \<Rightarrow> Values" where
  "ParseQuery query = parseQuery fmempty query"

subsection \<open>Requests, errors and the store of map objects\<close>

text \<open>
  \<^verbatim>\<open>Validate\<close> receives a pointer to the request and builds a map object of its own.
  Its state holds the request objects and the map objects, addressed by their index. A
  reference to a map of the caller (in the signing functions, further down) is \<open>Some a\<close>,
  the nil map is \<open>None\<close>. Of \<^verbatim>\<open>http.Request\<close> only the
  fields the package reads are kept; \<open>HeaderJSON\<close> stands for the text
  \<^verbatim>\<open>json.Marshal(r.Header)\<close>, which part_002 copies into its error.
\<close>

record request =
  Method :: string
  RawQuery :: string
  Host :: string
  Proto :: string
  RemoteAddr :: string
  RequestURI :: string
  HeaderJSON :: string

record state =
  reqs :: "request list"
  vals :: "Values list"

definition alloc :: "state \<Rightarrow> Values \<Rightarrow> nat \<times> state" where
  "alloc st m = (length (vals st), st\<lparr>vals := vals st @ [m]\<rparr>)"

definition rd :: "state \<Rightarrow> nat \<Rightarrow> Values" where
  "rd st a = vals st ! a"

definition upd :: "state \<Rightarrow> nat \<Rightarrow> (Values \<Rightarrow> Values) \<Rightarrow> state" where
  "upd st a f = st\<lparr>vals := (vals st)[a := f (vals st ! a)]\<rparr>"

text \<open>\<^verbatim>\<open>r.URL.Query()\<close> parses \<^verbatim>\<open>RawQuery\<close> into a new map object.\<close>

definition Query :: "state \<Rightarrow> nat \<Rightarrow> nat \<times> state" where
  "Query st r = alloc st (ParseQuery (RawQuery (reqs st ! r)))"

text \<open>
  \<^verbatim>\<open>Error{s, Status}\<close> of hancock.go, part_000 and part_001; the message field \<^verbatim>\<open>s\<close> is
  \<open>msg\<close> here. \<^verbatim>\<open>newError\<close> receives the message that \<^verbatim>\<open>fmt.Sprintf\<close> built; the
  \<^verbatim>\<open>%s\<close> of a string is the string itself.
\<close>

record Error =
  msg :: string
  Status :: int

abbreviation StatusUnauthorized :: int where
  "StatusUnauthorized \<equiv> 401"

abbreviation StatusNotAcceptable :: int where
  "StatusNotAcceptable \<equiv> 406"

definition newError :: "int \<Rightarrow> string \<Rightarrow> Error" where
  "newError st_code text = \<lparr>msg = text, Status = st_code\<rparr>"

text \<open>\<^verbatim>\<open>Error{Status, Message, Request}\<close> and \<^verbatim>\<open>RequestInfo\<close> of part_002.\<close>

record RequestInfo =
  info_APIKey :: string
  info_Host :: string
  info_Proto :: string
  info_RemoteAddr :: string
  info_RequestURI :: string
  info_Header :: string

record Error_p2 =
  Status_p2 :: int
  Message_p2 :: string
  Request_p2 :: RequestInfo

text \<open>\<^verbatim>\<open>newError\<close> of part_002 calls \<^verbatim>\<open>r.URL.Query()\<close> once more, a further map object.\<close>

definition newError_p2 :: "state \<Rightarrow> int \<Rightarrow> nat \<Rightarrow> string \<Rightarrow> Error_p2 \<times> state" where
  "newError_p2 st st_code r text =
     (let (q, st1) = Query st r;
          rq = reqs st1 ! r
      in (\<lparr>Status_p2 = st_code, Message_p2 = text,
           Request_p2 = \<lparr>info_APIKey = Get (rd st1 q) ''apikey'', info_Host = Host rq,
                          info_Proto = Proto rq, info_RemoteAddr = RemoteAddr rq,
                          info_RequestURI = RequestURI rq, info_Header = HeaderJSON rq\<rparr>\<rparr>,
          st1))"

subsection \<open>The package: timestamp check\<close>

text \<open>
  \<^verbatim>\<open>isValidTS\<close>, the same in all four revisions. The subtraction and the negation are
  \<^verbatim>\<open>int64\<close> operations and wrap around.
\<close>

definition isValidTS :: "int64 \<Rightarrow> string \<Rightarrow> int64 \<Rightarrow> string \<times> bool" where
  "isValidTS now ts expireSeconds =
     (case ParseInt ts of
        Some i \<Rightarrow>
          (let dur = now - i;
               dur = (if dur <s 0 then dur * (- 1) else dur)
           in (''expired'', dur \<le>s expireSeconds))
      | None \<Rightarrow> (''invalid'', False))"

subsection \<open>The package: Validate\<close>

text \<open>\<^verbatim>\<open>Validate\<close> of src/hancock.go.\<close>

definition Validate_r0 ::
  "int64 \<Rightarrow> state \<Rightarrow> nat \<Rightarrow> string \<Rightarrow> int64 \<Rightarrow> (Error + nat) \<times> state" where
  "Validate_r0 now st r pKey expireSeconds =
     (let (q, st1) = Query st r;
          ts = Get (rd st1 q) ''ts'';
          (s, ok) = isValidTS now ts expireSeconds
      in if - 1 <s expireSeconds \<and> \<not> ok then
           (Inl (newError StatusNotAcceptable (s @ '' timestamp '' @ ts)), st1)
         else
           (let data = Get (rd st1 q) ''data'';
                st2 = upd st1 q (\<lambda>m. Del m ''data'');
                sig = Method (reqs st2 ! r) @ '':'' @ Encode (rd st2 q);
                eh = encHash pKey sig
            in if eh \<noteq> data then
                 (Inl (newError StatusUnauthorized
                         (''signature mismatch '' @ eh @ '' != '' @ data)), st2)
               else
                 (let st3 = upd st2 q (\<lambda>m. Del m ''apikey'');
                      st4 = upd st3 q (\<lambda>m. Del m ''ts'')
                  in (Inr q, st4))))"

text \<open>
  \<^verbatim>\<open>Validate\<close> of part_000 (part_001 differs in the name of the local variable only).
  The \<^verbatim>\<open>switch\<close> takes \<^verbatim>\<open>case -1\<close> and \<^verbatim>\<open>case -2\<close> when they match and
  \<^verbatim>\<open>default\<close> otherwise.
\<close>

definition Validate ::
  "int64 \<Rightarrow> state \<Rightarrow> nat \<Rightarrow> string \<Rightarrow> int64 \<Rightarrow> (Error + nat) \<times> state" where
  "Validate now st r pKey expireSeconds =
     (let (v, st1) = Query st r
      in if expireSeconds = - 2 then
           (let st2 = upd st1 v (\<lambda>m. Del m ''data'');
                st3 = upd st2 v (\<lambda>m. Del m ''apikey'');
                st4 = upd st3 v (\<lambda>m. Del m ''ts'')
            in (Inr v, st4))
         else
           (let ts = Get (rd st1 v) ''ts'';
                (s, ok) = isValidTS now ts expireSeconds
            in if expireSeconds \<noteq> - 1 \<and> \<not> ok then
                 (Inl (newError StatusNotAcceptable (s @ '' timestamp '' @ ts)), st1)
               else
                 (let data = Get (rd st1 v) ''data'';
                      st2 = upd st1 v (\<lambda>m. Del m ''data'');
                      sig = Method (reqs st2 ! r) @ '':'' @ Encode (rd st2 v);
                      eh = encHash pKey sig
                  in if eh \<noteq> data then
                       (Inl (newError StatusUnauthorized
                               (''signature mismatch `'' @ eh @ ''` != `'' @ data @ ''`'')), st2)
                     else
                       (let st3 = upd st2 v (\<lambda>m. Del m ''apikey'');
                            st4 = upd st3 v (\<lambda>m. Del m ''ts'')
                        in (Inr v, st4)))))"

text \<open>\<^verbatim>\<open>Validate\<close> of part_002: the same steps, the errors built by its \<^verbatim>\<open>newError\<close>.\<close>

definition Validate_p2 ::
  "int64 \<Rightarrow> state \<Rightarrow> nat \<Rightarrow> string \<Rightarrow> int64 \<Rightarrow> (Error_p2 + nat) \<times> state" where
  "Validate_p2 now st r pKey expireSeconds =
     (let (v, st1) = Query st r
      in if expireSeconds = - 2 then
           (let st2 = upd st1 v (\<lambda>m. Del m ''data'');
                st3 = upd st2 v (\<lambda>m. Del m ''apikey'');
                st4 = upd st3 v (\<lambda>m. Del m ''ts'')
            in (Inr v, st4))
         else
           (let ts = Get (rd st1 v) ''ts'';
                (s, ok) = isValidTS now ts expireSeconds
            in if expireSeconds \<noteq> - 1 \<and> \<not> ok then
                 (let (e, st2) = newError_p2 st1 StatusNotAcceptable r (s @ '' timestamp '' @ ts)
                  in (Inl e, st2))
               else
                 (let data = Get (rd st1 v) ''data'';
                      st2 = upd st1 v (\<lambda>m. Del m ''data'');
                      sig = Method (reqs st2 ! r) @ '':'' @ Encode (rd st2 v);
                      eh = encHash pKey sig
                  in if eh \<noteq> data then
                       (let (e, st3) = newError_p2 st2 StatusUnauthorized r
                                         (''signature mismatch `'' @ eh @ ''` != `'' @ data @ ''`'')
                        in (Inl e, st3))
                     else
                       (let st3 = upd st2 v (\<lambda>m. Del m ''apikey'');
                            st4 = upd st3 v (\<lambda>m. Del m ''ts'')
                        in (Inr v, st4)))))"

subsection \<open>Slices, backing arrays and the caller's maps\<close>

text \<open>
  \<^verbatim>\<open>Sign\<close> and \<^verbatim>\<open>SignQS\<close> receive a map object of the caller. Its values are slices:
  a slice is a window (\<open>sl_off\<close>, \<open>sl_len\<close>) of at most \<open>sl_cap\<close> elements into a backing
  array, and two slices may share one array. The memory of the signing functions holds
  the map objects (keys to slice headers) and the backing arrays, addressed by their
  index, and \<open>growth\<close>, the capacity that the runtime gives to a new array for a
  requested number of elements (Go leaves it to the implementation; it is at least the
  number requested). The nil slice has length and capacity 0.
  The map that \<^verbatim>\<open>r.URL.Query()\<close> builds in \<^verbatim>\<open>Validate\<close> is new and its slices share no
  array with any other object; there the values are kept as lists.
\<close>

record slice =
  sl_arr :: nat
  sl_off :: nat
  sl_len :: nat
  sl_cap :: nat

record memory =
  objs :: "(string, slice) fmap list"
  arrs :: "string list list"
  growth :: "nat \<Rightarrow> nat"

definition nil_slice :: slice where
  "nil_slice = \<lparr>sl_arr = 0, sl_off = 0, sl_len = 0, sl_cap = 0\<rparr>"

text \<open>The elements that a slice shows.\<close>

definition view :: "memory \<Rightarrow> slice \<Rightarrow> string list" where
  "view mem s = take (sl_len s) (drop (sl_off s) (arrs mem ! sl_arr s))"

text \<open>\<^verbatim>\<open>v[key]\<close>: the slice under a key, the nil slice for a missing key.\<close>

definition sindex :: "(string, slice) fmap \<Rightarrow> string \<Rightarrow> slice" where
  "sindex v key = (case fmlookup v key of None \<Rightarrow> nil_slice | Some s \<Rightarrow> s)"

text \<open>What a map object shows: every key with the elements of its slice.\<close>

definition contents :: "memory \<Rightarrow> nat \<Rightarrow> Values" where
  "contents mem a = fmmap (view mem) (objs mem ! a)"

text \<open>
  \<^verbatim>\<open>append(s, x)\<close>: with spare capacity the element is written into the backing array
  behind the last element of \<open>s\<close>; otherwise a new array receives the elements of \<open>s\<close>
  and \<open>x\<close>.
\<close>

definition append_slice :: "memory \<Rightarrow> slice \<Rightarrow> string \<Rightarrow> slice \<times> memory" where
  "append_slice mem s x =
     (if sl_len s < sl_cap s then
        (s\<lparr>sl_len := sl_len s + 1\<rparr>,
         mem\<lparr>arrs := (arrs mem)[sl_arr s := (arrs mem ! sl_arr s)[sl_off s + sl_len s := x]]\<rparr>)
      else
        (let c = max (sl_len s + 1) (growth mem (sl_len s + 1))
         in (\<lparr>sl_arr = length (arrs mem), sl_off = 0, sl_len = sl_len s + 1, sl_cap = c\<rparr>,
             mem\<lparr>arrs := arrs mem
                   @ [view mem s @ [x] @ replicate (c - (sl_len s + 1)) []]\<rparr>)))"

text \<open>\<^verbatim>\<open>v.Add(key, value)\<close>, that is \<^verbatim>\<open>v[key] = append(v[key], value)\<close>, on the map object \<open>a\<close>.\<close>

definition Values_Add :: "memory \<Rightarrow> nat \<Rightarrow> string \<Rightarrow> string \<Rightarrow> memory" where
  "Values_Add mem a key val =
     (let (s, mem1) = append_slice mem (sindex (objs mem ! a) key) val
      in mem1\<lparr>objs := (objs mem1)[a := fmupd key s (objs mem1 ! a)]\<rparr>)"

text \<open>\<^verbatim>\<open>make(url.Values)\<close>: a new, empty map object.\<close>

definition make_Values :: "memory \<Rightarrow> nat \<times> memory" where
  "make_Values mem = (length (objs mem), mem\<lparr>objs := objs mem @ [fmempty]\<rparr>)"

subsection \<open>The package: Sign and SignQS\<close>

text \<open>
  \<^verbatim>\<open>Sign\<close> of src/hancock.go: a nil \<^verbatim>\<open>qs\<close> is replaced by a new map; otherwise the
  two \<^verbatim>\<open>Add\<close> calls write into the caller's map object.
\<close>

definition Sign_r0 ::
  "int64 \<Rightarrow> memory \<Rightarrow> string \<Rightarrow> string \<Rightarrow> string \<Rightarrow> string \<Rightarrow> nat option \<Rightarrow> string \<times> memory"
  where
  "Sign_r0 now mem method key pKey urlStr qs =
     (let (a, mem1) = (case qs of None \<Rightarrow> make_Values mem | Some a \<Rightarrow> (a, mem));
          mem2 = Values_Add mem1 a ''apikey'' key;
          mem3 = Values_Add mem2 a ''ts'' (itoa now);
          q = Encode (contents mem3 a);
          sig = method @ '':'' @ q;
          eh = encHash pKey sig
      in (urlStr @ ''?'' @ q @ ''&data='' @ eh, mem3))"

text \<open>
  The loop \<^verbatim>\<open>for k, o := range values { v[k] = o }\<close> of \<^verbatim>\<open>SignQS\<close>: the slice header
  under each key is stored in \<open>v\<close>, so both maps then refer to the same backing arrays.
  Go visits the keys in no fixed order; the keys are distinct, so every order gives the
  same map, and the sorted order stands for all of them.
\<close>

fun copy_entries ::
  "(string, slice) fmap \<Rightarrow> string list \<Rightarrow> (string, slice) fmap \<Rightarrow> (string, slice) fmap" where
  "copy_entries src [] v = v"
| "copy_entries src (k # ks) v = copy_entries src ks (fmupd k (sindex src k) v)"

definition copy_values :: "memory \<Rightarrow> nat \<Rightarrow> nat option \<Rightarrow> memory" where
  "copy_values mem v src =
     (case src of
        None \<Rightarrow> mem
      | Some a \<Rightarrow>
          mem\<lparr>objs := (objs mem)[v :=
            copy_entries (objs mem ! a) (sorted_list_of_fset (fmdom (objs mem ! a)))
              (objs mem ! v)]\<rparr>)"

text \<open>\<^verbatim>\<open>SignQS\<close> and \<^verbatim>\<open>Sign\<close> of part_000 and part_002.\<close>

definition SignQS ::
  "int64 \<Rightarrow> memory \<Rightarrow> string \<Rightarrow> string \<Rightarrow> string \<Rightarrow> nat option \<Rightarrow> string \<times> memory" where
  "SignQS now mem method key pKey vs =
     (let (v, mem1) = make_Values mem;
          mem2 = copy_values mem1 v vs;
          mem3 = Values_Add mem2 v ''apikey'' key;
          mem4 = Values_Add mem3 v ''ts'' (itoa now);
          enc = Encode (contents mem4 v);
          sig = method @ '':'' @ enc;
          eh = encHash pKey sig;
          mem5 = Values_Add mem4 v ''data'' eh
      in (Encode (contents mem5 v), mem5))"


text \<open>
  \<^verbatim>\<open>SignQS\<close> of part_001: the signature is computed over \<^verbatim>\<open>qs.Encode()\<close>, the encoding
  of the caller's map (the empty string for a nil map), not over the copy that holds
  \<^verbatim>\<open>apikey\<close> and \<^verbatim>\<open>ts\<close>.
\<close>

definition SignQS_p1 ::
  "int64 \<Rightarrow> memory \<Rightarrow> string \<Rightarrow> string \<Rightarrow> string \<Rightarrow> nat option \<Rightarrow> string \<times> memory" where
  "SignQS_p1 now mem method key pKey qs =
     (let (vs, mem1) = make_Values mem;
          mem2 = copy_values mem1 vs qs;
          mem3 = Values_Add mem2 vs ''apikey'' key;
          mem4 = Values_Add mem3 vs ''ts'' (itoa now);
          q = (case qs of None \<Rightarrow> [] | Some a \<Rightarrow> Encode (contents mem4 a));
          sig = method @ '':'' @ q;
          eh = encHash pKey sig;
          mem5 = Values_Add mem4 vs ''data'' eh
      in (Encode (contents mem5 vs), mem5))"

subsection \<open>Notions used in the statements\<close>

text \<open>
  The string that \<^verbatim>\<open>Validate\<close> authenticates: the method, a colon, and the encoding of
  the request's parameters without \<^verbatim>\<open>data\<close>.
\<close>

definition canonical :: "request \<Rightarrow> string" where
  "canonical rq = Method rq @ '':'' @ Encode (Del (ParseQuery (RawQuery rq)) ''data'')"

text \<open>A parameter set without the three envelope fields.\<close>

definition strip :: "Values \<Rightarrow> Values" where
  "strip m = Del (Del (Del m ''data'') ''apikey'') ''ts''"

text \<open>The state after one more map object has been allocated.\<close>

definition push :: "state \<Rightarrow> Values \<Rightarrow> state" where
  "push st m = st\<lparr>vals := vals st @ [m]\<rparr>"

text \<open>A request with a method and a raw query string, the other fields empty.\<close>

definition mkreq :: "string \<Rightarrow> string \<Rightarrow> request" where
  "mkreq method query =
     \<lparr>Method = method, RawQuery = query, Host = [], Proto = [], RemoteAddr = [],
      RequestURI = [], HeaderJSON = []\<rparr>"

text \<open>
  A parameter set without the keys whose value list is empty: such a key has no
  \<^verbatim>\<open>key=value\<close> pair, so the encoding does not show it.
\<close>

definition nonempty :: "Values \<Rightarrow> Values" where
  "nonempty v = fmfilter (\<lambda>k. index v k \<noteq> []) v"

text \<open>
  The \<^verbatim>\<open>key=value\<close> pairs of a parameter set in the order of a list of keys, the text of
  one pair, the pairs joined by \<^verbatim>\<open>&\<close>, and the map that holds one pair more.
\<close>

definition pairs_of :: "Values \<Rightarrow> string list \<Rightarrow> (string \<times> string) list" where
  "pairs_of v ks = concat (map (\<lambda>k. map (Pair k) (index v k)) ks)"

definition encode_pair :: "string \<times> string \<Rightarrow> string" where
  "encode_pair p = QueryEscape (fst p) @ ''='' @ QueryEscape (snd p)"

fun join_pairs :: "(string \<times> string) list \<Rightarrow> string" where
  "join_pairs [] = []"
| "join_pairs (p # ps) = encode_pair p @ concat (map (\<lambda>q. CHR ''&'' # encode_pair q) ps)"




text \<open>
  The error of a failed MAC comparison, as part_000 (with backquotes) and src/hancock.go
  (without) build it from the recomputed MAC and the \<^verbatim>\<open>data\<close> value.
\<close>

definition mismatch :: "string \<Rightarrow> string \<Rightarrow> Error" where
  "mismatch eh d =
     \<lparr>msg = ''signature mismatch `'' @ eh @ ''` != `'' @ d @ ''`'', Status = 401\<rparr>"




text \<open>
  The invariant of a Go slice: the length is at most the capacity, and a slice with
  capacity refers to an array of the memory that holds the whole window. A map of the
  caller is well formed when it is a map object of the memory and its slices are; the
  nil map is.
\<close>

definition wf_slice :: "memory \<Rightarrow> slice \<Rightarrow> bool" where
  "wf_slice mem s =
     (sl_len s \<le> sl_cap s
      \<and> (if sl_cap s = 0 then True
         else sl_arr s < length (arrs mem)
              \<and> sl_off s + sl_cap s \<le> length (arrs mem ! sl_arr s)))"








section \<open>Lemmas\<close>

subsection \<open>The store\<close>

lemma Query_push:
  "Query st r = (length (vals st), push st (ParseQuery (RawQuery (reqs st ! r))))"
  by (simp add: Query_def alloc_def push_def)

lemma alloc_push: "alloc st m = (length (vals st), push st m)"
  by (simp add: alloc_def push_def)

lemma rd_push [simp]: "rd (push st m) (length (vals st)) = m"
  by (simp add: rd_def push_def)

lemma rd_push_old [simp]: "a < length (vals st) \<Longrightarrow> rd (push st m) a = rd st a"
  by (simp add: rd_def push_def nth_append)

lemma upd_push [simp]: "upd (push st m) (length (vals st)) f = push st (f m)"
  by (simp add: upd_def push_def)

lemma reqs_push [simp]: "reqs (push st m) = reqs st"
  by (simp add: push_def)

lemma vals_push [simp]: "vals (push st m) = vals st @ [m]"
  by (simp add: push_def)

subsection \<open>Validate as a function of the parsed query\<close>

lemma Validate_eq:
  "Validate now st r pKey W =
     (let rq = reqs st ! r; m = ParseQuery (RawQuery rq); ts = Get m ''ts''
      in if W = - 2 then (Inr (length (vals st)), push st (strip m))
         else if W \<noteq> - 1 \<and> \<not> snd (isValidTS now ts W) then
           (Inl (newError StatusNotAcceptable (fst (isValidTS now ts W) @ '' timestamp '' @ ts)),
            push st m)
         else if encHash pKey (canonical rq) \<noteq> Get m ''data'' then
           (Inl (newError StatusUnauthorized
                   (''signature mismatch `'' @ encHash pKey (canonical rq) @ ''` != `''
                    @ Get m ''data'' @ ''`'')),
            push st (Del m ''data''))
         else (Inr (length (vals st)), push st (strip m)))"
  by (simp add: Validate_def Query_push Let_def split_def canonical_def strip_def)

lemma Validate_r0_eq:
  "Validate_r0 now st r pKey W =
     (let rq = reqs st ! r; m = ParseQuery (RawQuery rq); ts = Get m ''ts''
      in if - 1 <s W \<and> \<not> snd (isValidTS now ts W) then
           (Inl (newError StatusNotAcceptable (fst (isValidTS now ts W) @ '' timestamp '' @ ts)),
            push st m)
         else if encHash pKey (canonical rq) \<noteq> Get m ''data'' then
           (Inl (newError StatusUnauthorized
                   (''signature mismatch '' @ encHash pKey (canonical rq) @ '' != ''
                    @ Get m ''data'')),
            push st (Del m ''data''))
         else (Inr (length (vals st)), push st (strip m)))"
  by (simp add: Validate_r0_def Query_push Let_def split_def canonical_def strip_def)

lemma Validate_p2_bypass:
  "Validate_p2 now st r pKey (- 2) =
     (Inr (length (vals st)), push st (strip (ParseQuery (RawQuery (reqs st ! r)))))"
  by (simp add: Validate_p2_def Query_push Let_def split_def strip_def)

subsection \<open>The encoded MAC has 44 characters\<close>

lemma length_base64url: "length (base64url bs) = 4 * ((length bs + 2) div 3)"
proof (induction bs rule: base64url.induct)
  case (4 a b c rest)
  have "(length rest + 5) div 3 = Suc ((length rest + 2) div 3)"
    by presburger
  with 4 show ?case
    by (simp add: add.commute)
qed simp_all

lemma length_sha_words: "length (sha_words s) = 8"
  by (simp add: sha_words_def split: prod.splits)

lemma length_concat_bytes_of_u32: "length (concat (map bytes_of_u32 ws)) = 4 * length ws"
  by (induction ws) (simp_all add: bytes_of_u32_def)

lemma length_sha256: "length (sha256 m) = 32"
  by (simp add: sha256_def Let_def length_concat_bytes_of_u32 length_sha_words)

lemma length_hmac_sha256: "length (hmac_sha256 key m) = 32"
  by (simp add: hmac_sha256_def Let_def length_sha256)

lemma length_encHash: "length (encHash pKey sig) = 44"
  by (simp add: encHash_def length_base64url length_hmac_sha256)

lemma encHash_not_Nil [simp]: "encHash pKey sig \<noteq> []"
  using length_encHash [of pKey sig] by auto

subsection \<open>Evaluating the parser on a given query string\<close>

declare parseQuery.simps [simp del]

lemma parseQuery_Nil [simp]: "parseQuery m [] = m"
  by (simp add: parseQuery.simps)

lemma parseQuery_Cons:
  "parseQuery m (c # cs) =
     parseQuery (parsePair m (fst (Cut (c # cs) CHR ''&''))) (snd (Cut (c # cs) CHR ''&''))"
  by (subst parseQuery.simps) simp

lemmas eval_query = ParseQuery_def parseQuery_Cons parsePair_def Cut_def index_def

lemmas eval_ts = isValidTS_def ParseInt_def ParseUint_def isDigit_def between_def digitVal_def
  word_sless_alt word_sle_eq

lemma sorted_keys_unique:
  assumes "sorted ks" and "distinct ks" and "set ks = fset S"
  shows "sorted_list_of_fset S = ks"
proof -
  have "sorted_list_of_set (fset S) = ks"
    using assms by (intro sorted_distinct_set_unique) simp_all
  then show ?thesis
    by (simp add: sorted_list_of_fset.rep_eq)
qed

lemma Encode_keys:
  "sorted ks \<Longrightarrow> distinct ks \<Longrightarrow> set ks = fset (fmdom v) \<Longrightarrow> Encode v = encode_keys v ks []"
  by (simp add: Encode_def sorted_keys_unique)

lemma query_foo: "ParseQuery ''foo=bar'' = fmupd ''foo'' [''bar''] fmempty"
  by (simp add: eval_query)

lemma query_ts_abc: "ParseQuery ''ts=abc'' = fmupd ''ts'' [''abc''] fmempty"
  by (simp add: eval_query)

lemma Encode_foo: "Encode (fmupd ''foo'' [''bar''] fmempty) = ''foo=bar''"
  by (subst Encode_keys [where ks = "[''foo'']"])
     (simp_all add: index_def shouldEscape_def isAlnum_def between_def)

lemma Encode_ts_abc: "Encode (fmupd ''ts'' [''abc''] fmempty) = ''ts=abc''"
  by (subst Encode_keys [where ks = "[''ts'']"])
     (simp_all add: index_def shouldEscape_def isAlnum_def between_def)

lemma canonical_foo: "canonical (mkreq ''GET'' ''foo=bar'') = ''GET:foo=bar''"
  by (simp add: canonical_def mkreq_def query_foo Del_def Encode_foo fmdrop_fmupd)

lemma canonical_ts_abc: "canonical (mkreq ''GET'' ''ts=abc'') = ''GET:ts=abc''"
  by (simp add: canonical_def mkreq_def query_ts_abc Del_def Encode_ts_abc fmdrop_fmupd)

lemma isValidTS_reason: "fst (isValidTS now ts W) = ''expired'' \<or> fst (isValidTS now ts W) = ''invalid''"
  by (simp add: isValidTS_def Let_def split: option.splits)

section \<open>The claims\<close>

text \<open>
  C6. Error classification of \<^verbatim>\<open>Validate\<close> (part_000). When the timestamp check is made
  (the window is neither -1 nor -2) and fails, the result is an error of status 406 whose
  message is the reason (\<^verbatim>\<open>expired\<close> or \<^verbatim>\<open>invalid\<close>), the text \<^verbatim>\<open> timestamp \<close> and the raw
  \<^verbatim>\<open>ts\<close> value. When the MAC comparison is reached and the recomputed MAC differs from
  the \<^verbatim>\<open>data\<close> value, the result is an error of status 401 whose message holds both
  values. Every error that \<^verbatim>\<open>Validate\<close> returns is one of these two.
\<close>

theorem Validate_error_classification:
  "(let m = ParseQuery (RawQuery (reqs st ! r)); ts = Get m ''ts''; data = Get m ''data'';
        eh = encHash pKey (canonical (reqs st ! r)); check = isValidTS now ts W;
        res = fst (Validate now st r pKey W)
    in (W \<noteq> - 2 \<and> W \<noteq> - 1 \<and> \<not> snd check \<longrightarrow>
          res = Inl \<lparr>msg = fst check @ '' timestamp '' @ ts, Status = 406\<rparr>
          \<and> (fst check = ''expired'' \<or> fst check = ''invalid''))
     \<and> (W \<noteq> - 2 \<and> (W = - 1 \<or> snd check) \<and> eh \<noteq> data \<longrightarrow>
          res = Inl \<lparr>msg = ''signature mismatch `'' @ eh @ ''` != `'' @ data @ ''`'',
                     Status = 401\<rparr>)
     \<and> (\<forall>e. res = Inl e \<longrightarrow>
            e = \<lparr>msg = fst check @ '' timestamp '' @ ts, Status = 406\<rparr>
            \<or> e = \<lparr>msg = ''signature mismatch `'' @ eh @ ''` != `'' @ data @ ''`'',
                    Status = 401\<rparr>))"
  using isValidTS_reason [of now "Get (ParseQuery (RawQuery (reqs st ! r))) ''ts''" W]
  by (auto simp: Validate_eq Let_def newError_def)

theorem Validate_error_classification_witness:
  "fst (Validate 1700000000 \<lparr>reqs = [mkreq ''GET'' ''ts=abc''], vals = []\<rparr> 0 ''s3cr3t'' 10)
     = Inl \<lparr>msg = ''invalid timestamp abc'', Status = 406\<rparr>
   \<and> fst (Validate 1700000000 \<lparr>reqs = [mkreq ''GET'' ''ts=abc''], vals = []\<rparr> 0 ''s3cr3t'' (- 1))
     = Inl \<lparr>msg = ''signature mismatch `'' @ encHash ''s3cr3t'' ''GET:ts=abc'' @ ''` != ``'',
            Status = 401\<rparr>"
  using Validate_error_classification
          [of "\<lparr>reqs = [mkreq ''GET'' ''ts=abc''], vals = []\<rparr>" 0 "''s3cr3t''" 1700000000 10]
        Validate_error_classification
          [of "\<lparr>reqs = [mkreq ''GET'' ''ts=abc''], vals = []\<rparr>" 0 "''s3cr3t''" 1700000000 "- 1"]
  by (simp add: Let_def canonical_ts_abc)
     (simp add: mkreq_def query_ts_abc Get_def index_def eval_ts)

text \<open>
  C10. With the window -2, \<^verbatim>\<open>Validate\<close> (part_000 and part_002) gives the same result and
  the same final state under any two secret keys, and it succeeds under the empty key.
\<close>

theorem bypass_key_independent:
  "Validate now st r pKey1 (- 2) = Validate now st r pKey2 (- 2)
   \<and> Validate_p2 now st r pKey1 (- 2) = Validate_p2 now st r pKey2 (- 2)
   \<and> fst (Validate now st r [] (- 2)) = Inr (length (vals st))
   \<and> fst (Validate_p2 now st r [] (- 2)) = Inr (length (vals st))"
  by (simp add: Validate_eq Validate_p2_bypass)

text \<open>
  C8. \<^verbatim>\<open>Validate\<close> (hancock.go and part_000) leaves every request object as it was, and
  with it the raw query string, whether it succeeds or fails; every map object that
  existed before the call is unchanged, and exactly one map object is new: the parsed copy
  on which the deletions are made.
\<close>

theorem Validate_frame:
  "reqs (snd (Validate now st r pKey W)) = reqs st
   \<and> take (length (vals st)) (vals (snd (Validate now st r pKey W))) = vals st
   \<and> length (vals (snd (Validate now st r pKey W))) = Suc (length (vals st))
   \<and> reqs (snd (Validate_r0 now st r pKey W)) = reqs st
   \<and> take (length (vals st)) (vals (snd (Validate_r0 now st r pKey W))) = vals st
   \<and> length (vals (snd (Validate_r0 now st r pKey W))) = Suc (length (vals st))"
  by (simp add: Validate_eq Validate_r0_eq Let_def)

text \<open>
  C3. \<^verbatim>\<open>isValidTS\<close> at the clock value 1700000000 with a \<^verbatim>\<open>ts\<close> that lies exactly
  \<open>2 ^ 63\<close> seconds in the past: the difference wraps to the least \<^verbatim>\<open>int64\<close>, its
  negation is again the least \<^verbatim>\<open>int64\<close>, and the check passes for the window 0,
  although the distance between the two times is not within the window.
\<close>

theorem isValidTS_wraps:
  "isValidTS 1700000000 ''-9223372035154775808'' 0 = (''expired'', True)"
  by (simp add: eval_ts)

subsection \<open>The timestamp check where no subtraction wraps\<close>

lemma sint_neg64:
  fixes d :: int64
  assumes "sint d \<noteq> - (2 ^ 63)"
  shows "sint (- d) = - sint d"
proof -
  have "- (2 ^ 63) \<le> sint d" and "sint d < 2 ^ 63"
    using sint_range_size [of d] by (simp_all add: word_size)
  with assms have "- (2 ^ 63) \<le> - sint d" and "- sint d < 2 ^ 63"
    by simp_all
  then show ?thesis
    by (simp add: sint_word_minus signed_take_bit_int_eq_self)
qed

lemma isValidTS_None: "ParseInt ts = None \<Longrightarrow> isValidTS now ts W = (''invalid'', False)"
  by (simp add: isValidTS_def)

lemma isValidTS_Some:
  assumes "ParseInt ts = Some i" and "sint (now - i) \<noteq> - (2 ^ 63)"
  shows "isValidTS now ts W = (''expired'', \<bar>sint (now - i)\<bar> \<le> sint W)"
  using assms sint_neg64 [of "now - i"]
  by (auto simp: isValidTS_def Let_def word_sless_alt word_sle_eq)


lemma isValidTS_negative_window:
  assumes "W <s 0" and "\<forall>i. ParseInt ts = Some i \<longrightarrow> sint (now - i) \<noteq> - (2 ^ 63)"
  shows "\<not> snd (isValidTS now ts W)"
proof (cases "ParseInt ts")
  case None
  then show ?thesis
    by (simp add: isValidTS_None)
next
  case (Some i)
  with assms(2) have "sint (now - i) \<noteq> - (2 ^ 63)"
    by simp
  from isValidTS_Some [OF Some this] assms(1) show ?thesis
    by (simp add: word_sless_alt)
qed

lemma mkreq_sel [simp]: "Method (mkreq method query) = method" "RawQuery (mkreq method query) = query"
  by (simp_all add: mkreq_def)

lemma fmlookup_strip:
  "fmlookup (strip m) k =
     (if k = ''data'' \<or> k = ''apikey'' \<or> k = ''ts'' then None else fmlookup m k)"
  by (auto simp: strip_def Del_def)

text \<open>
  C4, as stated, fails on src/hancock.go: its \<^verbatim>\<open>Validate\<close> has no bypass value. With the
  window -2 and a request without a \<^verbatim>\<open>data\<close> field the MAC is still compared and the
  request is refused with status 401.
\<close>

theorem bypass_r0_counterexample:
  "fst (Validate_r0 1700000000 \<lparr>reqs = [mkreq ''GET'' ''foo=bar''], vals = []\<rparr> 0 ''s3cr3t'' (- 2))
     = Inl \<lparr>msg = ''signature mismatch '' @ encHash ''s3cr3t'' ''GET:foo=bar'' @ '' != '',
            Status = 401\<rparr>"
  by (simp add: Validate_r0_eq Let_def canonical_foo newError_def word_sless_alt)
     (simp add: query_foo Get_def index_def)

text \<open>
  C4, amended. In part_000 and part_002, \<^verbatim>\<open>Validate\<close> with the window -2 makes no
  timestamp check and no MAC check, whatever the key and the \<^verbatim>\<open>data\<close> field: it returns,
  with no error, the request's parameters without \<^verbatim>\<open>apikey\<close>, \<^verbatim>\<open>ts\<close> and \<^verbatim>\<open>data\<close>,
  every other key with its values unchanged. In src/hancock.go the window -2 skips the
  timestamp check only: the request is accepted exactly when the recomputed MAC equals its
  \<^verbatim>\<open>data\<close> field.
\<close>

theorem bypass_sentinel:
  "(let m = ParseQuery (RawQuery (reqs st ! r)); v = length (vals st)
    in Validate now st r pKey (- 2) = (Inr v, push st (strip m))
       \<and> Validate_p2 now st r pKey (- 2) = (Inr v, push st (strip m))
       \<and> rd (push st (strip m)) v = strip m
       \<and> fmlookup (strip m) ''apikey'' = None
       \<and> fmlookup (strip m) ''ts'' = None
       \<and> fmlookup (strip m) ''data'' = None
       \<and> (\<forall>k. k \<noteq> ''apikey'' \<and> k \<noteq> ''ts'' \<and> k \<noteq> ''data''
              \<longrightarrow> fmlookup (strip m) k = fmlookup m k)
       \<and> (\<exists>e. fst (Validate_r0 now st r pKey (- 2)) =
              (if encHash pKey (canonical (reqs st ! r)) = Get m ''data'' then Inr v else Inl e)))"
  by (simp add: Validate_eq Validate_p2_bypass Validate_r0_eq Let_def fmlookup_strip
      word_sless_alt)

theorem bypass_sentinel_witness:
  "fst (Validate 1700000000 \<lparr>reqs = [mkreq ''GET'' ''foo=bar''], vals = []\<rparr> 0 ''s3cr3t'' (- 2))
     = Inr 0
   \<and> fmlookup (strip (ParseQuery ''foo=bar'')) ''foo'' = Some [''bar'']"
  using bypass_sentinel [of "\<lparr>reqs = [mkreq ''GET'' ''foo=bar''], vals = []\<rparr>" 0 1700000000 "''s3cr3t''"]
  by (simp add: Let_def query_foo)

text \<open>
  C9, as stated, fails on src/hancock.go: the guard \<^verbatim>\<open>expireSeconds > -1\<close> skips the
  timestamp check for every negative window. With the window -3 and the timestamp
  \<^verbatim>\<open>abc\<close> the request reaches the MAC comparison and is refused with status 401, not 406.
\<close>

theorem negative_window_r0_counterexample:
  "fst (Validate_r0 1700000000 \<lparr>reqs = [mkreq ''GET'' ''ts=abc''], vals = []\<rparr> 0 ''s3cr3t'' (- 3))
     = Inl \<lparr>msg = ''signature mismatch '' @ encHash ''s3cr3t'' ''GET:ts=abc'' @ '' != '',
            Status = 401\<rparr>"
  by (simp add: Validate_r0_eq Let_def canonical_ts_abc newError_def word_sless_alt)
     (simp add: query_ts_abc Get_def index_def)

lemma Validate_p2_ts_error:
  assumes "W \<noteq> - 2" and "W \<noteq> - 1"
    and "\<not> snd (isValidTS now (Get (ParseQuery (RawQuery (reqs st ! r))) ''ts'') W)"
  shows "fst (Validate_p2 now st r pKey W) =
     (let rq = reqs st ! r; m = ParseQuery (RawQuery rq); ts = Get m ''ts''
      in Inl \<lparr>Status_p2 = 406,
               Message_p2 = fst (isValidTS now ts W) @ '' timestamp '' @ ts,
               Request_p2 = \<lparr>info_APIKey = Get m ''apikey'', info_Host = Host rq,
                              info_Proto = Proto rq, info_RemoteAddr = RemoteAddr rq,
                              info_RequestURI = RequestURI rq, info_Header = HeaderJSON rq\<rparr>\<rparr>)"
  using assms
  by (simp add: Validate_p2_def newError_p2_def Query_push Let_def split_def)
     (simp add: rd_def push_def nth_append)

lemma query_ts_num: "ParseQuery ''ts=1700000000'' = fmupd ''ts'' [''1700000000''] fmempty"
  by (simp add: eval_query)

lemma ParseInt_1700000000: "ParseInt ''1700000000'' = Some 1700000000"
  by (simp add: ParseInt_def ParseUint_def isDigit_def between_def digitVal_def)

text \<open>
  C9, amended. In part_000 and part_002 (and part_001, whose \<^verbatim>\<open>Validate\<close> is that of
  part_000), for a negative window other than -1 and -2, \<^verbatim>\<open>Validate\<close> returns the 406
  timestamp error for every \<^verbatim>\<open>ts\<close> that does not parse and for every \<^verbatim>\<open>ts\<close> whose
  difference from the clock does not wrap to the least \<^verbatim>\<open>int64\<close> (nothing is said of that
  one difference). In src/hancock.go a negative window never gives the 406 error: the
  timestamp check is skipped and the result is that of the MAC comparison.
\<close>

theorem negative_window:
  "(let rq = reqs st ! r; m = ParseQuery (RawQuery rq); ts = Get m ''ts''
    in (W <s 0 \<and> W \<noteq> - 1 \<and> W \<noteq> - 2
        \<and> (\<forall>i. ParseInt ts = Some i \<longrightarrow> sint (now - i) \<noteq> - (2 ^ 63))
        \<longrightarrow> fst (Validate now st r pKey W) =
              Inl \<lparr>msg = fst (isValidTS now ts W) @ '' timestamp '' @ ts, Status = 406\<rparr>
            \<and> fst (Validate_p2 now st r pKey W) =
              Inl \<lparr>Status_p2 = 406,
                    Message_p2 = fst (isValidTS now ts W) @ '' timestamp '' @ ts,
                    Request_p2 = \<lparr>info_APIKey = Get m ''apikey'', info_Host = Host rq,
                                   info_Proto = Proto rq, info_RemoteAddr = RemoteAddr rq,
                                   info_RequestURI = RequestURI rq,
                                   info_Header = HeaderJSON rq\<rparr>\<rparr>)
     \<and> (W <s 0 \<longrightarrow>
          fst (Validate_r0 now st r pKey W) =
            (if encHash pKey (canonical (reqs st ! r)) = Get m ''data''
             then Inr (length (vals st))
             else Inl \<lparr>msg = ''signature mismatch '' @ encHash pKey (canonical (reqs st ! r))
                              @ '' != '' @ Get m ''data'',
                        Status = 401\<rparr>)))"
proof -
  have fail: "\<not> snd (isValidTS now ts W)"
    if "W <s 0" and "\<forall>i. ParseInt ts = Some i \<longrightarrow> sint (now - i) \<noteq> - (2 ^ 63)" for ts
    using that by (rule isValidTS_negative_window)
  have p2: "fst (Validate_p2 now st r pKey W) =
     Inl \<lparr>Status_p2 = 406,
           Message_p2 = fst (isValidTS now (Get (ParseQuery (RawQuery (reqs st ! r))) ''ts'') W)
                        @ '' timestamp '' @ Get (ParseQuery (RawQuery (reqs st ! r))) ''ts'',
           Request_p2 = \<lparr>info_APIKey = Get (ParseQuery (RawQuery (reqs st ! r))) ''apikey'',
                          info_Host = Host (reqs st ! r), info_Proto = Proto (reqs st ! r),
                          info_RemoteAddr = RemoteAddr (reqs st ! r),
                          info_RequestURI = RequestURI (reqs st ! r),
                          info_Header = HeaderJSON (reqs st ! r)\<rparr>\<rparr>"
    if "W <s 0" and "W \<noteq> - 1" and "W \<noteq> - 2"
      and "\<forall>i. ParseInt (Get (ParseQuery (RawQuery (reqs st ! r))) ''ts'') = Some i
             \<longrightarrow> sint (now - i) \<noteq> - (2 ^ 63)"
    using Validate_p2_ts_error [OF that(3) that(2) fail [OF that(1) that(4)], of pKey]
    by (simp add: Let_def)
  from fail p2 show ?thesis
    by (auto simp: Validate_eq Validate_r0_eq Let_def newError_def word_sless_alt)
qed

theorem negative_window_witness:
  "fst (Validate 1700000000 \<lparr>reqs = [mkreq ''GET'' ''ts=1700000000''], vals = []\<rparr> 0 ''s3cr3t'' (- 3))
     = Inl \<lparr>msg = ''expired timestamp 1700000000'', Status = 406\<rparr>
   \<and> fst (Validate_p2 1700000000 \<lparr>reqs = [mkreq ''GET'' ''ts=1700000000''], vals = []\<rparr> 0
            ''s3cr3t'' (- 3))
     = Inl \<lparr>Status_p2 = 406, Message_p2 = ''expired timestamp 1700000000'',
            Request_p2 = \<lparr>info_APIKey = [], info_Host = [], info_Proto = [],
                           info_RemoteAddr = [], info_RequestURI = [], info_Header = []\<rparr>\<rparr>
   \<and> fst (Validate 1700000000 \<lparr>reqs = [mkreq ''GET'' ''ts=abc''], vals = []\<rparr> 0 ''s3cr3t'' (- 3))
     = Inl \<lparr>msg = ''invalid timestamp abc'', Status = 406\<rparr>
   \<and> fst (Validate_r0 1700000000 \<lparr>reqs = [mkreq ''GET'' ''ts=abc''], vals = []\<rparr> 0 ''s3cr3t'' (- 3))
     = Inl \<lparr>msg = ''signature mismatch '' @ encHash ''s3cr3t'' ''GET:ts=abc'' @ '' != '',
            Status = 401\<rparr>"
proof -
  have p: "ParseInt ''abc'' = None"
    by (simp add: eval_ts)
  have g: "Get (fmupd ''ts'' [''abc''] fmempty) ''ts'' = ''abc''"
    "Get (fmupd ''ts'' [''abc''] fmempty) ''data'' = []"
    "Get (fmupd ''ts'' [''1700000000''] fmempty) ''ts'' = ''1700000000''"
    "Get (fmupd ''ts'' [''1700000000''] fmempty) ''apikey'' = []"
    by (simp_all add: Get_def index_def)
  have v: "isValidTS 1700000000 ''1700000000'' (- 3) = (''expired'', False)"
    by (simp add: eval_ts)
  have sel: "Host (mkreq ''GET'' ''ts=1700000000'') = []" "Proto (mkreq ''GET'' ''ts=1700000000'') = []"
    "RemoteAddr (mkreq ''GET'' ''ts=1700000000'') = []"
    "RequestURI (mkreq ''GET'' ''ts=1700000000'') = []"
    "HeaderJSON (mkreq ''GET'' ''ts=1700000000'') = []"
    by (simp_all add: mkreq_def)
  show ?thesis
    using negative_window
        [of "\<lparr>reqs = [mkreq ''GET'' ''ts=1700000000''], vals = []\<rparr>" 0 "- 3" 1700000000 "''s3cr3t''"]
      negative_window
        [of "\<lparr>reqs = [mkreq ''GET'' ''ts=abc''], vals = []\<rparr>" 0 "- 3" 1700000000 "''s3cr3t''"]
    by (simp add: Let_def canonical_ts_abc query_ts_abc query_ts_num g p v sel
        ParseInt_1700000000 isValidTS_None word_sless_alt)
qed

subsection \<open>Signing: the state it leaves\<close>

declare utoa.simps [simp del]

lemma utoa_digit: "n < 10 \<Longrightarrow> utoa n = [digitChar n]"
  by (simp add: utoa.simps)

lemma utoa_more: "10 \<le> n \<Longrightarrow> utoa n = utoa (n div 10) @ [digitChar (n mod 10)]"
  by (subst utoa.simps) simp

lemma itoa_1700000000: "itoa 1700000000 = ''1700000000''"
  by (simp add: itoa_def utoa_more utoa_digit digitChar_def)

subsection \<open>Escaping and unescaping\<close>

lemma hex_digit_cases:
  fixes d :: nat
  assumes "d < 16"
  shows "d = 15 \<or> d = 14 \<or> d = 13 \<or> d = 12 \<or> d = 11 \<or> d = 10 \<or> d = 9 \<or> d = 8
         \<or> d = 7 \<or> d = 6 \<or> d = 5 \<or> d = 4 \<or> d = 3 \<or> d = 2 \<or> d = 1 \<or> d = 0"
  using assms by arith

lemma upperhex_ishex: "n < 16 \<Longrightarrow> ishex (upperhex n)"
  using hex_digit_cases [of n] by (auto simp: upperhex_def ishex_def between_def)

lemma upperhex_unhex: "n < 16 \<Longrightarrow> unhex (upperhex n) = n"
  using hex_digit_cases [of n] by (auto simp: upperhex_def unhex_def between_def)


lemma nibbles: "(of_char c :: nat) div 16 < 16" "(of_char c :: nat) mod 16 < 16"
proof -
  have "(of_char c :: nat) < 256"
    by simp
  then show "(of_char c :: nat) div 16 < 16"
    by arith
  show "(of_char c :: nat) mod 16 < 16"
    by simp
qed

lemma plain_char:
  assumes "\<not> shouldEscape c"
  shows "c \<noteq> CHR ''%''" "c \<noteq> CHR ''+''" "c \<noteq> CHR ''&''" "c \<noteq> CHR ''=''" "c \<noteq> CHR '';''"
  using assms by (auto simp: shouldEscape_def isAlnum_def between_def)


lemma QueryUnescape_step:
  "QueryUnescape (QueryEscape [c] @ rest) = map_option (\<lambda>t. c # t) (QueryUnescape rest)"
proof (cases "c = CHR '' ''")
  case True
  then show ?thesis
    by simp
next
  case False
  show ?thesis
  proof (cases "shouldEscape c")
    case True
    have "char_of (unhex (upperhex (of_char c div 16)) * 16 + unhex (upperhex (of_char c mod 16))) = c"
      by (simp add: upperhex_unhex nibbles)
    with True False show ?thesis
      by (simp add: upperhex_ishex nibbles)
  next
    case False
    with \<open>c \<noteq> CHR '' ''\<close> plain_char [OF False] show ?thesis
      by simp
  qed
qed

lemma QueryEscape_Cons: "QueryEscape (c # cs) = QueryEscape [c] @ QueryEscape cs"
  by simp

lemma QueryUnescape_append:
  "QueryUnescape (QueryEscape s @ rest) = map_option (\<lambda>t. s @ t) (QueryUnescape rest)"
proof (induction s)
  case Nil
  show ?case
    by (simp add: option.map_ident)
next
  case (Cons c cs)
  have "QueryUnescape (QueryEscape (c # cs) @ rest)
        = QueryUnescape (QueryEscape [c] @ (QueryEscape cs @ rest))"
    by simp
  also have "\<dots> = map_option (\<lambda>t. c # t) (QueryUnescape (QueryEscape cs @ rest))"
    by (rule QueryUnescape_step)
  also have "\<dots> = map_option (\<lambda>t. (c # cs) @ t) (QueryUnescape rest)"
    by (simp add: Cons.IH option.map_comp comp_def)
  finally show ?case .
qed

lemma QueryUnescape_QueryEscape [simp]: "QueryUnescape (QueryEscape s) = Some s"
  using QueryUnescape_append [of s "[]"] by simp


subsection \<open>The encoding as a list of pairs\<close>

lemma encode_pair_not_Nil [simp]: "encode_pair p \<noteq> []"
  by (simp add: encode_pair_def)

lemma encode_vals_foldl:
  "encode_vals (QueryEscape k) xs buf =
     foldl (\<lambda>b p. (if b \<noteq> [] then b @ ''&'' else b) @ encode_pair p) buf (map (Pair k) xs)"
  by (induction xs arbitrary: buf) (simp_all add: encode_pair_def)

lemma encode_keys_foldl:
  "encode_keys v ks buf =
     foldl (\<lambda>b p. (if b \<noteq> [] then b @ ''&'' else b) @ encode_pair p) buf (pairs_of v ks)"
  by (induction ks arbitrary: buf) (simp_all add: pairs_of_def encode_vals_foldl)

lemma foldl_write_nonempty:
  "buf \<noteq> [] \<Longrightarrow>
   foldl (\<lambda>b p. (if b \<noteq> [] then b @ ''&'' else b) @ encode_pair p) buf ps =
     buf @ concat (map (\<lambda>q. CHR ''&'' # encode_pair q) ps)"
  by (induction ps arbitrary: buf) simp_all

lemma foldl_write_join:
  "foldl (\<lambda>b p. (if b \<noteq> [] then b @ ''&'' else b) @ encode_pair p) [] ps = join_pairs ps"
  by (cases ps) (simp_all add: foldl_write_nonempty)

lemma Encode_join: "Encode v = join_pairs (pairs_of v (sorted_list_of_fset (fmdom v)))"
  by (simp add: Encode_def encode_keys_foldl foldl_write_join)

subsection \<open>Parsing an encoded list of pairs\<close>




lemma parsePair_Nil [simp]: "parsePair m [] = m"
  by (simp add: parsePair_def)





subsection \<open>Signing: what it leaves in the caller's map\<close>

lemma Values_Add_grow:
  assumes "\<not> sl_len (sindex (objs mem ! a) k) < sl_cap (sindex (objs mem ! a) k)"
  shows "Values_Add mem a k x =
     (let s = sindex (objs mem ! a) k;
          c = max (sl_len s + 1) (growth mem (sl_len s + 1))
      in mem\<lparr>objs := (objs mem)[a := fmupd k
                  \<lparr>sl_arr = length (arrs mem), sl_off = 0, sl_len = sl_len s + 1, sl_cap = c\<rparr>
                  (objs mem ! a)],
              arrs := arrs mem @ [view mem s @ [x] @ replicate (c - (sl_len s + 1)) []]\<rparr>)"
  using assms by (simp add: Values_Add_def append_slice_def Let_def)

lemma Values_Add_in_place:
  assumes "sl_len (sindex (objs mem ! a) k) < sl_cap (sindex (objs mem ! a) k)"
  shows "Values_Add mem a k x =
     (let s = sindex (objs mem ! a) k
      in mem\<lparr>objs := (objs mem)[a := fmupd k (s\<lparr>sl_len := sl_len s + 1\<rparr>) (objs mem ! a)],
              arrs := (arrs mem)[sl_arr s := (arrs mem ! sl_arr s)[sl_off s + sl_len s := x]]\<rparr>)"
  using assms by (simp add: Values_Add_def append_slice_def Let_def)

lemma Sign_r0_at_foo:
  "snd (Sign_r0 1700000000
       \<lparr>objs = [fmupd ''foo'' \<lparr>sl_arr = 0, sl_off = 0, sl_len = 1, sl_cap = 1\<rparr> fmempty],
        arrs = [[''bar'']], growth = (\<lambda>n. n)\<rparr>
       ''GET'' ''pub1'' ''s3cr3t'' ''http://h/p'' (Some 0))
   = \<lparr>objs = [fmupd ''ts'' \<lparr>sl_arr = 2, sl_off = 0, sl_len = 1, sl_cap = 1\<rparr>
              (fmupd ''apikey'' \<lparr>sl_arr = 1, sl_off = 0, sl_len = 1, sl_cap = 1\<rparr>
              (fmupd ''foo'' \<lparr>sl_arr = 0, sl_off = 0, sl_len = 1, sl_cap = 1\<rparr> fmempty))],
      arrs = [[''bar''], [''pub1''], [''1700000000'']], growth = (\<lambda>n. n)\<rparr>"
  by (simp add: Sign_r0_def Let_def split_def Values_Add_grow sindex_def nil_slice_def view_def
      itoa_1700000000 numeral_2_eq_2)

lemma keys_x_apikey: "sorted_list_of_fset {|''x'', ''apikey''|} = [''apikey'', ''x'']"
  by (rule sorted_keys_unique) auto

lemma SignQS_at_shared:
  "snd (SignQS 1700000000
       \<lparr>objs = [fmupd ''x'' \<lparr>sl_arr = 0, sl_off = 0, sl_len = 1, sl_cap = 1\<rparr>
                 (fmupd ''apikey'' \<lparr>sl_arr = 0, sl_off = 0, sl_len = 0, sl_cap = 1\<rparr> fmempty)],
        arrs = [[''old'']], growth = (\<lambda>n. n)\<rparr>
       ''GET'' ''pub1'' ''s3cr3t'' (Some 0))
   = \<lparr>objs = [fmupd ''x'' \<lparr>sl_arr = 0, sl_off = 0, sl_len = 1, sl_cap = 1\<rparr>
                 (fmupd ''apikey'' \<lparr>sl_arr = 0, sl_off = 0, sl_len = 0, sl_cap = 1\<rparr> fmempty),
              fmupd ''data'' \<lparr>sl_arr = 2, sl_off = 0, sl_len = 1, sl_cap = 1\<rparr>
              (fmupd ''ts'' \<lparr>sl_arr = 1, sl_off = 0, sl_len = 1, sl_cap = 1\<rparr>
              (fmupd ''apikey'' \<lparr>sl_arr = 0, sl_off = 0, sl_len = 1, sl_cap = 1\<rparr>
              (fmupd ''x'' \<lparr>sl_arr = 0, sl_off = 0, sl_len = 1, sl_cap = 1\<rparr>
              (fmupd ''apikey'' \<lparr>sl_arr = 0, sl_off = 0, sl_len = 0, sl_cap = 1\<rparr> fmempty))))],
      arrs = [[''pub1''], [''1700000000''],
              [encHash ''s3cr3t'' (''GET:'' @ Encode
                 (fmupd ''ts'' [''1700000000''] (fmupd ''apikey'' [''pub1'']
                   (fmupd ''x'' [''pub1''] (fmupd ''apikey'' [] fmempty)))))]],
      growth = (\<lambda>n. n)\<rparr>"
  by (simp add: SignQS_def Let_def split_def make_Values_def copy_values_def keys_x_apikey
      Values_Add_grow Values_Add_in_place sindex_def nil_slice_def view_def contents_def
      fmmap_fmupd itoa_1700000000 numeral_2_eq_2)

text \<open>
  C7. Two calls that change what the caller's map shows.
  \<^verbatim>\<open>Sign\<close> of src/hancock.go, called with the caller's map \<^verbatim>\<open>{"foo": ["bar"]}\<close> (the map
  object 0): after the call the caller's map holds \<^verbatim>\<open>apikey\<close> and \<^verbatim>\<open>ts\<close> as well.
  \<^verbatim>\<open>SignQS\<close> of part_000, called with a map whose (empty) \<^verbatim>\<open>apikey\<close> slice has one spare
  element in the array that the slice under \<^verbatim>\<open>x\<close> shows: the map object of the caller
  keeps its slice headers, but \<^verbatim>\<open>append\<close> writes the public key into the shared array,
  and the caller's \<^verbatim>\<open>x\<close> reads \<^verbatim>\<open>pub1\<close> where it read \<^verbatim>\<open>old\<close>.
\<close>

theorem Sign_mutates_input:
  "contents (snd (Sign_r0 1700000000
       \<lparr>objs = [fmupd ''foo'' \<lparr>sl_arr = 0, sl_off = 0, sl_len = 1, sl_cap = 1\<rparr> fmempty],
        arrs = [[''bar'']], growth = (\<lambda>n. n)\<rparr>
       ''GET'' ''pub1'' ''s3cr3t'' ''http://h/p'' (Some 0))) 0
     = fmupd ''ts'' [''1700000000''] (fmupd ''apikey'' [''pub1''] (fmupd ''foo'' [''bar''] fmempty))
   \<and> contents
       \<lparr>objs = [fmupd ''x'' \<lparr>sl_arr = 0, sl_off = 0, sl_len = 1, sl_cap = 1\<rparr>
                 (fmupd ''apikey'' \<lparr>sl_arr = 0, sl_off = 0, sl_len = 0, sl_cap = 1\<rparr> fmempty)],
        arrs = [[''old'']], growth = (\<lambda>n. n)\<rparr> 0
     = fmupd ''x'' [''old''] (fmupd ''apikey'' [] fmempty)
   \<and> contents (snd (SignQS 1700000000
       \<lparr>objs = [fmupd ''x'' \<lparr>sl_arr = 0, sl_off = 0, sl_len = 1, sl_cap = 1\<rparr>
                 (fmupd ''apikey'' \<lparr>sl_arr = 0, sl_off = 0, sl_len = 0, sl_cap = 1\<rparr> fmempty)],
        arrs = [[''old'']], growth = (\<lambda>n. n)\<rparr>
       ''GET'' ''pub1'' ''s3cr3t'' (Some 0))) 0
     = fmupd ''x'' [''pub1''] (fmupd ''apikey'' [] fmempty)"
  unfolding Sign_r0_at_foo SignQS_at_shared
  by (simp add: contents_def fmmap_fmupd view_def)

subsection \<open>Parsing an encoding gives the parameter set back\<close>









lemma set_sorted_keys: "set (sorted_list_of_fset (fmdom v)) = fmdom' v"
  by (simp add: fmdom'_alt_def)

lemma distinct_sorted_keys: "distinct (sorted_list_of_fset S)"
  by (simp add: sorted_list_of_fset.rep_eq)

lemma sorted_sorted_keys: "sorted (sorted_list_of_fset S)"
  by (simp add: sorted_list_of_fset.rep_eq)


subsection \<open>Keys with an empty value list do not show\<close>

lemma index_nonempty [simp]: "index (nonempty v) k = index v k"
  by (auto simp: nonempty_def index_def split: option.splits)

lemma Get_nonempty [simp]: "Get (nonempty v) k = Get v k"
  by (simp add: Get_def)


lemma pairs_of_filter:
  "pairs_of v (filter (\<lambda>k. index v k \<noteq> []) ks) = pairs_of v ks"
  by (induction ks) (simp_all add: pairs_of_def)

lemma pairs_of_cong: "(\<And>k. index v k = index w k) \<Longrightarrow> pairs_of v ks = pairs_of w ks"
  by (simp add: pairs_of_def)

lemma sorted_keys_nonempty:
  "sorted_list_of_fset (fmdom (nonempty v)) =
     filter (\<lambda>k. index v k \<noteq> []) (sorted_list_of_fset (fmdom v))"
proof (rule sorted_keys_unique)
  show "sorted (filter (\<lambda>k. index v k \<noteq> []) (sorted_list_of_fset (fmdom v)))"
    by (rule sorted_wrt_filter) (rule sorted_sorted_keys)
  show "distinct (filter (\<lambda>k. index v k \<noteq> []) (sorted_list_of_fset (fmdom v)))"
    by (rule distinct_filter) (rule distinct_sorted_keys)
  show "set (filter (\<lambda>k. index v k \<noteq> []) (sorted_list_of_fset (fmdom v))) = fset (fmdom (nonempty v))"
    by (auto simp: nonempty_def)
qed

lemma Encode_nonempty [simp]: "Encode (nonempty v) = Encode v"
proof -
  have "pairs_of (nonempty v) (sorted_list_of_fset (fmdom (nonempty v)))
        = pairs_of v (filter (\<lambda>k. index v k \<noteq> []) (sorted_list_of_fset (fmdom v)))"
    unfolding sorted_keys_nonempty by (rule pairs_of_cong) simp
  then show ?thesis
    by (simp add: Encode_join pairs_of_filter)
qed

subsection \<open>The signed example\<close>













lemma QueryEscape_1700000000: "QueryEscape ''1700000000'' = ''1700000000''"
  by (simp add: shouldEscape_def isAlnum_def between_def)








subsection \<open>A formatted timestamp parses to itself\<close>









subsection \<open>Appending to a slice without spare capacity\<close>


lemma wf_nil [simp]: "wf_slice mem nil_slice"
  by (simp add: wf_slice_def nil_slice_def)










subsection \<open>The copy that SignQS makes\<close>




subsection \<open>SignQS on parameter sets\<close>

lemma view_objs_update [simp]: "view (mem\<lparr>objs := x\<rparr>) = view mem"
  by (rule ext) (simp add: view_def)


subsection \<open>The round trip on parameter sets\<close>






subsection \<open>A caller's map with one parameter\<close>








end
